theory Spec2Isabelle
  imports Complex_Main
begin

section \<open>Floating-point values\<close>

text \<open>
  Every number the dashboard computes is a numpy float64. The model keeps the four kinds
  of value that decide a branch of the code: a finite number, the two infinities and NaN.
  Rounding and the sign of zero are not modelled: a finite value is a real number, and a
  positive number divided by zero is plus infinity.
\<close>

datatype fl = Fin real | PInf | NInf | NaN

fun fl_neg :: "fl \<Rightarrow> fl" where
  "fl_neg (Fin x) = Fin (- x)"
| "fl_neg PInf = NInf"
| "fl_neg NInf = PInf"
| "fl_neg NaN = NaN"

fun fl_add :: "fl \<Rightarrow> fl \<Rightarrow> fl" where
  "fl_add NaN _ = NaN"
| "fl_add _ NaN = NaN"
| "fl_add (Fin x) (Fin y) = Fin (x + y)"
| "fl_add PInf NInf = NaN"
| "fl_add NInf PInf = NaN"
| "fl_add PInf _ = PInf"
| "fl_add _ PInf = PInf"
| "fl_add NInf _ = NInf"
| "fl_add _ NInf = NInf"

definition fl_sub :: "fl \<Rightarrow> fl \<Rightarrow> fl" where
  "fl_sub a b = fl_add a (fl_neg b)"

fun fl_mul :: "fl \<Rightarrow> fl \<Rightarrow> fl" where
  "fl_mul NaN _ = NaN"
| "fl_mul _ NaN = NaN"
| "fl_mul (Fin x) (Fin y) = Fin (x * y)"
| "fl_mul (Fin x) PInf = (if x = 0 then NaN else if 0 < x then PInf else NInf)"
| "fl_mul (Fin x) NInf = (if x = 0 then NaN else if 0 < x then NInf else PInf)"
| "fl_mul PInf (Fin y) = (if y = 0 then NaN else if 0 < y then PInf else NInf)"
| "fl_mul NInf (Fin y) = (if y = 0 then NaN else if 0 < y then NInf else PInf)"
| "fl_mul PInf PInf = PInf"
| "fl_mul PInf NInf = NInf"
| "fl_mul NInf PInf = NInf"
| "fl_mul NInf NInf = PInf"

text \<open>
  numpy does not raise on a division by zero: \<open>x / 0\<close> is an infinity of the sign of
  \<open>x\<close>, and \<open>0 / 0\<close> is NaN.
\<close>

fun fl_div :: "fl \<Rightarrow> fl \<Rightarrow> fl" where
  "fl_div NaN _ = NaN"
| "fl_div _ NaN = NaN"
| "fl_div (Fin x) (Fin y) =
     (if y = 0 then (if x = 0 then NaN else if 0 < x then PInf else NInf) else Fin (x / y))"
| "fl_div (Fin x) PInf = Fin 0"
| "fl_div (Fin x) NInf = Fin 0"
| "fl_div PInf (Fin y) = (if 0 \<le> y then PInf else NInf)"
| "fl_div NInf (Fin y) = (if 0 \<le> y then NInf else PInf)"
| "fl_div PInf PInf = NaN"
| "fl_div PInf NInf = NaN"
| "fl_div NInf PInf = NaN"
| "fl_div NInf NInf = NaN"

fun fl_sqrt :: "fl \<Rightarrow> fl" where
  "fl_sqrt (Fin x) = (if x < 0 then NaN else Fin (sqrt x))"
| "fl_sqrt PInf = PInf"
| "fl_sqrt NInf = NaN"
| "fl_sqrt NaN = NaN"

text \<open>Every comparison with NaN is false.\<close>

fun fl_lt :: "fl \<Rightarrow> fl \<Rightarrow> bool" where
  "fl_lt NaN _ = False"
| "fl_lt _ NaN = False"
| "fl_lt (Fin x) (Fin y) = (x < y)"
| "fl_lt (Fin x) PInf = True"
| "fl_lt (Fin x) NInf = False"
| "fl_lt PInf _ = False"
| "fl_lt NInf NInf = False"
| "fl_lt NInf _ = True"

definition fl_gt :: "fl \<Rightarrow> fl \<Rightarrow> bool" where
  "fl_gt a b = fl_lt b a"

definition fl_ge :: "fl \<Rightarrow> fl \<Rightarrow> bool" where
  "fl_ge a b = (a \<noteq> NaN \<and> b \<noteq> NaN \<and> \<not> fl_lt a b)"

section \<open>The pandas operations the dashboard calls\<close>

text \<open>
  A Series is the list of its values; a Series with an index is a list of pairs of a label
  and a value. pandas skips NaN in \<open>sum\<close>, \<open>mean\<close>, \<open>std\<close>, \<open>max\<close>, \<open>min\<close> and
  \<open>idxmax\<close>; \<open>std\<close> is the sample standard deviation (one degree of freedom removed),
  which is NaN for fewer than two values.
\<close>

datatype py_error = IndexError | ValueError | OtherException string | KeyboardInterrupt

definition notna :: "fl \<Rightarrow> bool" where
  "notna x = (x \<noteq> NaN)"

definition nansum :: "fl list \<Rightarrow> fl" where
  "nansum xs = foldl fl_add (Fin 0) (filter notna xs)"

definition count_valid :: "fl list \<Rightarrow> nat" where
  "count_valid xs = length (filter notna xs)"

definition nanmean :: "fl list \<Rightarrow> fl" where
  "nanmean xs = fl_div (nansum xs) (Fin (real (count_valid xs)))"

definition nanstd :: "fl list \<Rightarrow> fl" where
  "nanstd xs =
     (if count_valid xs \<le> 1 then NaN
      else fl_sqrt (fl_div
             (nansum (map (\<lambda>x. fl_mul (fl_sub (nanmean xs) x) (fl_sub (nanmean xs) x))
                          (filter notna xs)))
             (Fin (real (count_valid xs - 1)))))"

definition nanmax :: "fl list \<Rightarrow> fl" where
  "nanmax xs =
     (case filter notna xs of
        [] \<Rightarrow> NaN
      | y # ys \<Rightarrow> foldl (\<lambda>m x. if fl_lt m x then x else m) y ys)"

definition nanmin :: "fl list \<Rightarrow> fl" where
  "nanmin xs =
     (case filter notna xs of
        [] \<Rightarrow> NaN
      | y # ys \<Rightarrow> foldl (\<lambda>m x. if fl_lt x m then x else m) y ys)"

text \<open>
  \<open>idxmax\<close> returns the label of the first largest value. On a Series with no value that
  is not NaN it raises ValueError.
\<close>

definition idxmax :: "(nat \<times> fl) list \<Rightarrow> py_error + nat" where
  "idxmax s =
     (case filter (\<lambda>kv. notna (snd kv)) s of
        [] \<Rightarrow> Inl ValueError
      | kv # rest \<Rightarrow>
          Inr (fst (foldl (\<lambda>best cur. if fl_lt (snd best) (snd cur) then cur else best) kv rest)))"

text \<open>The first row of \<open>diff\<close> has no predecessor and is NaN; row i is x[i] - x[i-1].\<close>

definition diff :: "fl list \<Rightarrow> fl list" where
  "diff xs = (case xs of [] \<Rightarrow> [] | _ # rest \<Rightarrow> NaN # map2 fl_sub rest xs)"

definition clip_lower :: "fl \<Rightarrow> fl \<Rightarrow> fl" where
  "clip_lower lo x = (if fl_lt x lo then lo else x)"

text \<open>
  \<open>groupby(key)[column].sum()\<close>: one entry per key that occurs, in ascending order of the
  key, holding the sum of the column over the rows of that key.
\<close>

definition groupby_sum :: "nat list \<Rightarrow> fl list \<Rightarrow> (nat \<times> fl) list" where
  "groupby_sum keys vals =
     map (\<lambda>k. (k, nansum (map snd (filter (\<lambda>kv. fst kv = k) (zip keys vals)))))
         (sort (remdups keys))"

text \<open>
  \<open>groupby(key)[column].cumsum()\<close>: the running sum within the rows of the same key; a
  NaN entry stays NaN and adds nothing.
\<close>

definition groupby_cumsum :: "nat list \<Rightarrow> fl list \<Rightarrow> fl list" where
  "groupby_cumsum keys vals =
     map (\<lambda>i. if notna (vals ! i)
               then nansum (map snd (filter (\<lambda>kv. fst kv = keys ! i) (take (Suc i) (zip keys vals))))
               else NaN)
         [0 ..< min (length keys) (length vals)]"

section \<open>Readings and the data frame\<close>

text \<open>
  A timestamp is a number of minutes since an epoch that falls on a Monday at 00:00; the
  accessors \<open>dt.date\<close>, \<open>dt.hour\<close> and \<open>dt.dayofweek\<close> of pandas read it.
\<close>

definition dt_date :: "nat \<Rightarrow> nat" where
  "dt_date t = t div 1440"

definition dt_hour :: "nat \<Rightarrow> nat" where
  "dt_hour t = (t div 60) mod 24"

definition dt_dayofweek :: "nat \<Rightarrow> nat" where
  "dt_dayofweek t = (t div 1440) mod 7"

record row =
  timestamp :: nat
  water_level_percent :: real
  volume_ml :: real
  user_id :: string
  device_id :: string
  consumption_ml :: fl
  is_drinking_event :: bool
  date :: nat
  daily_consumption :: fl

text \<open>
  \<open>_generate_simulated_data\<close>, from the point where the random walk has produced one fill
  level per timestamp: the readings are the pairs of a timestamp and a fill level in
  percent. Both files of the repository have the same code here.
\<close>

definition consumption_column :: "real list \<Rightarrow> fl list" where
  "consumption_column volumes = map fl_neg (map (clip_lower (Fin 0)) (diff (map Fin volumes)))"

definition generate_simulated_data :: "string \<Rightarrow> (nat \<times> real) list \<Rightarrow> row list" where
  "generate_simulated_data uid readings =
     (let timestamps = map fst readings;
          water_levels = map snd readings;
          volumes = map (\<lambda>level. level * 10) water_levels;
          consumption = consumption_column volumes;
          dates = map dt_date timestamps;
          daily = groupby_cumsum dates consumption
      in map (\<lambda>(t, level, c, d).
                \<lparr>timestamp = t, water_level_percent = level, volume_ml = level * 10,
                 user_id = uid, device_id = ''DEVICE_'' @ drop (length uid - 3) uid,
                 consumption_ml = c, is_drinking_event = fl_gt c (Fin 50),
                 date = dt_date t, daily_consumption = d\<rparr>)
             (zip timestamps (zip water_levels (zip consumption daily))))"

text \<open>\<open>data.groupby('date')['consumption_ml'].sum()\<close>, the daily series.\<close>

definition daily_totals :: "row list \<Rightarrow> (nat \<times> fl) list" where
  "daily_totals data = groupby_sum (map date data) (map consumption_ml data)"

section \<open>Pattern analysis\<close>

record analysis =
  analysis_user_id :: string
  total_consumption_ml :: fl
  avg_daily_consumption_ml :: fl
  std_daily_consumption_ml :: fl
  max_daily_consumption_ml :: fl
  min_daily_consumption_ml :: fl
  avg_drinking_events_per_day :: fl
  peak_hydration_hour :: nat
  peak_hydration_day :: nat
  consistency_score :: fl
  days_analyzed :: nat

text \<open>
  \<open>analyze_user_patterns\<close>. The result \<open>Inr None\<close> is the empty dict \<open>{}\<close> the code
  returns for an empty frame, \<open>Inr (Some a)\<close> the dict of the eleven statistics, and
  \<open>Inl e\<close> an exception that leaves the function. The two files differ only in
  converting the two peak labels with \<open>int\<close>, so one definition stands for both. The
  columns \<open>hour\<close> and \<open>day_of_week\<close> that the code adds to the frame are read from the
  timestamp.
\<close>

definition analyze_user_patterns :: "string \<Rightarrow> row list \<Rightarrow> py_error + analysis option" where
  "analyze_user_patterns uid data =
     (if data = [] then Inr None
      else
        let daily_stats = daily_totals data;
            drinking_events =
              groupby_sum (map date data)
                (map (\<lambda>r. if is_drinking_event r then Fin 1 else Fin 0) data);
            hourly_pattern =
              groupby_sum (map (\<lambda>r. dt_hour (timestamp r)) data) (map consumption_ml data);
            weekly_pattern =
              groupby_sum (map (\<lambda>r. dt_dayofweek (timestamp r)) data) (map consumption_ml data)
        in case idxmax hourly_pattern of
             Inl e \<Rightarrow> Inl e
           | Inr peak_hour \<Rightarrow>
               (case idxmax weekly_pattern of
                  Inl e \<Rightarrow> Inl e
                | Inr peak_day \<Rightarrow>
                    Inr (Some
                      \<lparr>analysis_user_id = uid,
                       total_consumption_ml = nansum (map consumption_ml data),
                       avg_daily_consumption_ml = nanmean (map snd daily_stats),
                       std_daily_consumption_ml = nanstd (map snd daily_stats),
                       max_daily_consumption_ml = nanmax (map snd daily_stats),
                       min_daily_consumption_ml = nanmin (map snd daily_stats),
                       avg_drinking_events_per_day = nanmean (map snd drinking_events),
                       peak_hydration_hour = peak_hour,
                       peak_hydration_day = peak_day,
                       consistency_score =
                         fl_sub (Fin 1)
                           (fl_div (nanstd (map snd daily_stats)) (nanmean (map snd daily_stats))),
                       days_analyzed = length daily_stats\<rparr>)))"

section \<open>Forecasting\<close>

record forecast_point =
  forecast_date :: nat
  forecasted_consumption_ml :: fl
  lower_bound :: fl
  upper_bound :: fl

text \<open>
  A statistical model of statsmodels is a parameter of the forecaster: given the daily
  series and the number of steps, fitting and forecasting either raise (\<open>Inl\<close>) or
  return the forecast values for the days after the last day of the series (\<open>Inr\<close>).
\<close>

type_synonym fit = "(nat \<times> fl) list \<Rightarrow> nat \<Rightarrow> py_error + fl list"

text \<open>\<open>try: ... except: x = None\<close>, which catches every exception.\<close>

definition except_bare :: "py_error + 'a \<Rightarrow> 'a option" where
  "except_bare r = (case r of Inl e \<Rightarrow> None | Inr v \<Rightarrow> Some v)"

text \<open>
  \<open>except Exception\<close> catches the exceptions that derive from \<open>Exception\<close>;
  KeyboardInterrupt does not.
\<close>

definition is_Exception :: "py_error \<Rightarrow> bool" where
  "is_Exception e = (e \<noteq> KeyboardInterrupt)"

definition except_Exception ::
  "py_error + forecast_point list option \<Rightarrow> py_error + forecast_point list option" where
  "except_Exception r =
     (case r of
        Inl e \<Rightarrow> if is_Exception e then Inr None else Inl e
      | Inr v \<Rightarrow> Inr v)"

text \<open>\<open>daily_consumption.index[-1]\<close>, which raises IndexError on an empty series.\<close>

definition index_last :: "(nat \<times> fl) list \<Rightarrow> py_error + nat" where
  "index_last s = (case s of [] \<Rightarrow> Inl IndexError | _ # _ \<Rightarrow> Inr (fst (last s)))"

text \<open>
  The fallback: the mean of the daily series, repeated, on the dates after the last day.
  The mean is computed first and does not raise; the index does on an empty series.
\<close>

definition flat_forecast :: "(nat \<times> fl) list \<Rightarrow> nat \<Rightarrow> py_error + fl list" where
  "flat_forecast daily_series forecast_days =
     (case index_last daily_series of
        Inl e \<Rightarrow> Inl e
      | Inr d \<Rightarrow> Inr (replicate forecast_days (nanmean (map snd daily_series))))"

text \<open>
  \<open>(forecast_hw + forecast_arima) / 2\<close>. Both series are indexed by the days after the
  last day of the history, so pandas adds them position by position; where one series is
  longer than the other the sum has NaN.
\<close>

fun ensemble :: "fl list \<Rightarrow> fl list \<Rightarrow> fl list" where
  "ensemble (x # xs) (y # ys) = fl_div (fl_add x y) (Fin 2) # ensemble xs ys"
| "ensemble [] ys = map (\<lambda>y. NaN) ys"
| "ensemble xs [] = map (\<lambda>x. NaN) xs"

definition forecast_df :: "nat \<Rightarrow> fl list \<Rightarrow> forecast_point list" where
  "forecast_df start forecast_values =
     map (\<lambda>(i, v).
            \<lparr>forecast_date = start + i, forecasted_consumption_ml = v,
             lower_bound = fl_mul v (Fin 0.8), upper_bound = fl_mul v (Fin 1.2)\<rparr>)
         (zip [0 ..< length forecast_values] forecast_values)"

definition make_forecast ::
  "(nat \<times> fl) list \<Rightarrow> py_error + fl list \<Rightarrow> py_error + forecast_point list option" where
  "make_forecast daily_series forecast_values =
     (case forecast_values of
        Inl e \<Rightarrow> Inl e
      | Inr vs \<Rightarrow>
          (case index_last daily_series of
             Inl e \<Rightarrow> Inl e
           | Inr d \<Rightarrow> Inr (Some (forecast_df (d + 1) vs))))"

text \<open>
  \<open>forecast_consumption\<close> of the Firebase file: Holt-Winters and ARIMA, each in its own
  \<open>try\<close>, then the ensemble, then the data frame, all inside \<open>try ... except Exception\<close>.
  \<open>Inr None\<close> is the empty \<open>pd.DataFrame()\<close> the code returns when it does not forecast,
  \<open>Inr (Some points)\<close> the frame of the four forecast columns.
\<close>

definition forecast_consumption ::
  "fit \<Rightarrow> fit \<Rightarrow> row list \<Rightarrow> nat \<Rightarrow> py_error + forecast_point list option" where
  "forecast_consumption hw arima data forecast_days =
     (if length data < 48 then Inr None
      else except_Exception
        (let daily_series = daily_totals data;
             forecast_hw = except_bare (hw daily_series forecast_days);
             forecast_arima = except_bare (arima daily_series forecast_days)
         in make_forecast daily_series
              (case forecast_hw of
                 Some h \<Rightarrow>
                   (case forecast_arima of
                      Some a \<Rightarrow> Inr (ensemble h a)
                    | None \<Rightarrow> Inr h)
               | None \<Rightarrow>
                   (case forecast_arima of
                      Some a \<Rightarrow> Inr a
                    | None \<Rightarrow> flat_forecast daily_series forecast_days))))"

text \<open>
  \<open>forecast_consumption\<close> of the Windows file: ARIMA alone when statsmodels could be
  imported, the mean otherwise and when ARIMA raises.
\<close>

definition forecast_consumption_win ::
  "bool \<Rightarrow> fit \<Rightarrow> row list \<Rightarrow> nat \<Rightarrow> py_error + forecast_point list option" where
  "forecast_consumption_win has_statsmodels arima data forecast_days =
     (if length data < 48 then Inr None
      else except_Exception
        (let daily_series = daily_totals data
         in make_forecast daily_series
              (if has_statsmodels
               then (case arima daily_series forecast_days of
                       Inr a \<Rightarrow> Inr a
                     | Inl e \<Rightarrow> flat_forecast daily_series forecast_days)
               else flat_forecast daily_series forecast_days)))"

text \<open>
  The dashboard object holds three dicts. The method reads and writes none of them: as a
  method of the object it returns the object as it was.
\<close>

record dashboard =
  users_data :: "string \<rightharpoonup> row list"
  devices_data :: "string \<rightharpoonup> string"
  forecasts :: "string \<rightharpoonup> forecast_point list"

definition forecast_consumption_method ::
  "dashboard \<Rightarrow> fit \<Rightarrow> fit \<Rightarrow> row list \<Rightarrow> nat
     \<Rightarrow> (py_error + forecast_point list option) \<times> dashboard" where
  "forecast_consumption_method self hw arima data forecast_days =
     (forecast_consumption hw arima data forecast_days, self)"

definition forecast_consumption_win_method ::
  "dashboard \<Rightarrow> bool \<Rightarrow> fit \<Rightarrow> row list \<Rightarrow> nat
     \<Rightarrow> (py_error + forecast_point list option) \<times> dashboard" where
  "forecast_consumption_win_method self has_statsmodels arima data forecast_days =
     (forecast_consumption_win has_statsmodels arima data forecast_days, self)"

section \<open>Recommendations\<close>

datatype priority = HIGH | MEDIUM | LOW | INFO

text \<open>
  A recommendation is the dict of four entries the code appends. The message is kept as the
  text of its f-string, and the numbers the f-string formats are kept beside it, unrounded.
\<close>

record recommendation =
  priority :: priority
  category :: string
  message :: string
  message_values :: "fl list"
  action :: string

record recommendation_set =
  set_user_id :: string
  current_daily_avg_ml :: fl
  recommended_daily_ml :: fl
  performance_ratio :: fl
  meeting_goal :: bool
  recommendations :: "recommendation list"

definition RECOMMENDED_DAILY_ML :: fl where
  "RECOMMENDED_DAILY_ML = Fin 2000"

text \<open>\<open>forecast.empty\<close>: no row, whether the frame has columns or not.\<close>

definition df_empty :: "forecast_point list option \<Rightarrow> bool" where
  "df_empty forecast = (case forecast of None \<Rightarrow> True | Some points \<Rightarrow> points = [])"

definition df_rows :: "forecast_point list option \<Rightarrow> forecast_point list" where
  "df_rows forecast = (case forecast of None \<Rightarrow> [] | Some points \<Rightarrow> points)"

subsection \<open>The Firebase file\<close>

definition increase_intake :: "fl \<Rightarrow> recommendation" where
  "increase_intake current_avg =
     \<lparr>priority = HIGH, category = ''Increase Intake'',
      message = ''You are drinking {current_avg:.0f}ml/day. Increase by {RECOMMENDED_DAILY_ML - current_avg:.0f}ml to reach the recommended 2L goal.'',
      message_values = [current_avg, fl_sub RECOMMENDED_DAILY_ML current_avg],
      action = ''Set reminders every 2 hours to drink water''\<rparr>"

definition minor_adjustment :: "fl \<Rightarrow> recommendation" where
  "minor_adjustment current_avg =
     \<lparr>priority = MEDIUM, category = ''Minor Adjustment'',
      message = ''You are close to the goal! Increase by {RECOMMENDED_DAILY_ML - current_avg:.0f}ml/day.'',
      message_values = [fl_sub RECOMMENDED_DAILY_ML current_avg],
      action = ''Add one extra glass of water with each meal''\<rparr>"

definition great_job :: recommendation where
  "great_job =
     \<lparr>priority = INFO, category = ''Great Job!'',
      message = ''You are meeting your hydration goals! Keep up the good work.'',
      message_values = [],
      action = ''Maintain current hydration routine''\<rparr>"

definition improve_consistency :: recommendation where
  "improve_consistency =
     \<lparr>priority = MEDIUM, category = ''Improve Consistency'',
      message = ''Your daily intake varies significantly. Try to maintain a more consistent schedule.'',
      message_values = [],
      action = ''Set fixed hydration times throughout the day''\<rparr>"

definition timing_optimization :: recommendation where
  "timing_optimization =
     \<lparr>priority = LOW, category = ''Timing Optimization'',
      message = ''Most of your water intake happens in the evening. Try to distribute more evenly throughout the day.'',
      message_values = [],
      action = ''Start hydrating earlier in the day''\<rparr>"

definition projected_shortfall :: "fl \<Rightarrow> recommendation" where
  "projected_shortfall avg_forecast =
     \<lparr>priority = MEDIUM, category = ''Projected Shortfall'',
      message = ''Based on trends, you may fall short by {RECOMMENDED_DAILY_ML - avg_forecast:.0f}ml/day next week.'',
      message_values = [fl_sub RECOMMENDED_DAILY_ML avg_forecast],
      action = ''Preemptively increase water intake''\<rparr>"

text \<open>
  \<open>generate_recommendations\<close> of the Firebase file. \<open>None\<close> is the empty dict \<open>{}\<close>, which
  the first statement returns for an empty analysis and for an empty forecast.
\<close>

definition generate_recommendations ::
  "analysis option \<Rightarrow> forecast_point list option \<Rightarrow> recommendation_set option" where
  "generate_recommendations analysis forecast =
     (case analysis of
        None \<Rightarrow> None
      | Some a \<Rightarrow>
          if df_empty forecast then None
          else
            let current_avg = avg_daily_consumption_ml a;
                ratio = fl_div current_avg RECOMMENDED_DAILY_ML;
                recs1 = [if fl_lt ratio (Fin 0.7) then increase_intake current_avg
                         else if fl_lt ratio (Fin 0.9) then minor_adjustment current_avg
                         else great_job];
                recs2 = (if fl_lt (consistency_score a) (Fin 0.7)
                         then recs1 @ [improve_consistency] else recs1);
                recs3 = (if 18 < peak_hydration_hour a
                         then recs2 @ [timing_optimization] else recs2);
                recs4 = (if \<not> df_empty forecast
                         then (let avg_forecast =
                                     nanmean (map forecasted_consumption_ml (df_rows forecast))
                               in if fl_lt avg_forecast (fl_mul RECOMMENDED_DAILY_ML (Fin 0.8))
                                  then recs3 @ [projected_shortfall avg_forecast] else recs3)
                         else recs3)
            in Some \<lparr>set_user_id = analysis_user_id a,
                     current_daily_avg_ml = current_avg,
                     recommended_daily_ml = RECOMMENDED_DAILY_ML,
                     performance_ratio = ratio,
                     meeting_goal = fl_ge ratio (Fin 0.9),
                     recommendations = recs4\<rparr>)"

subsection \<open>The Windows file\<close>

definition increase_intake_win :: "fl \<Rightarrow> recommendation" where
  "increase_intake_win current_avg =
     \<lparr>priority = HIGH, category = ''Increase Intake'',
      message = ''You are drinking {current_avg:.0f}ml/day. Increase by {RECOMMENDED_DAILY_ML - current_avg:.0f}ml to reach the goal.'',
      message_values = [current_avg, fl_sub RECOMMENDED_DAILY_ML current_avg],
      action = ''Set reminders every 2 hours to drink water''\<rparr>"

definition minor_adjustment_win :: "fl \<Rightarrow> recommendation" where
  "minor_adjustment_win current_avg =
     \<lparr>priority = MEDIUM, category = ''Minor Adjustment'',
      message = ''You are close! Increase by {RECOMMENDED_DAILY_ML - current_avg:.0f}ml/day.'',
      message_values = [fl_sub RECOMMENDED_DAILY_ML current_avg],
      action = ''Add one extra glass of water with each meal''\<rparr>"

definition great_job_win :: recommendation where
  "great_job_win =
     \<lparr>priority = INFO, category = ''Great Job!'',
      message = ''You are meeting your hydration goals!'',
      message_values = [],
      action = ''Maintain current hydration routine''\<rparr>"

definition improve_consistency_win :: recommendation where
  "improve_consistency_win =
     \<lparr>priority = MEDIUM, category = ''Improve Consistency'',
      message = ''Your daily intake varies significantly.'',
      message_values = [],
      action = ''Set fixed hydration times throughout the day''\<rparr>"

text \<open>
  \<open>generate_recommendations\<close> of the Windows file: it takes the forecast and never reads
  it, and it has the intake rule and the consistency rule only.
\<close>

definition generate_recommendations_win ::
  "analysis option \<Rightarrow> forecast_point list option \<Rightarrow> recommendation_set option" where
  "generate_recommendations_win analysis forecast =
     (case analysis of
        None \<Rightarrow> None
      | Some a \<Rightarrow>
          let current_avg = avg_daily_consumption_ml a;
              ratio = fl_div current_avg RECOMMENDED_DAILY_ML;
              recs1 = [if fl_lt ratio (Fin 0.7) then increase_intake_win current_avg
                       else if fl_lt ratio (Fin 0.9) then minor_adjustment_win current_avg
                       else great_job_win];
              recs2 = (if fl_lt (consistency_score a) (Fin 0.7)
                       then recs1 @ [improve_consistency_win] else recs1)
          in Some \<lparr>set_user_id = analysis_user_id a,
                   current_daily_avg_ml = current_avg,
                   recommended_daily_ml = RECOMMENDED_DAILY_ML,
                   performance_ratio = ratio,
                   meeting_goal = fl_ge ratio (Fin 0.9),
                   recommendations = recs2\<rparr>)"

section \<open>Example inputs\<close>

text \<open>
  A user who averages 1000 ml a day, irregularly, and drinks most at 20:00; a user who
  averages 2000 ml a day, evenly, and drinks most at 20:00; a one-day forecast of 1500 ml.
\<close>

definition low_evening_analysis :: analysis where
  "low_evening_analysis =
     \<lparr>analysis_user_id = ''USER_001'', total_consumption_ml = Fin 7000,
      avg_daily_consumption_ml = Fin 1000, std_daily_consumption_ml = Fin 500,
      max_daily_consumption_ml = Fin 1800, min_daily_consumption_ml = Fin 300,
      avg_drinking_events_per_day = Fin 8, peak_hydration_hour = 20, peak_hydration_day = 2,
      consistency_score = Fin 0.5, days_analyzed = 7\<rparr>"

definition steady_evening_analysis :: analysis where
  "steady_evening_analysis =
     \<lparr>analysis_user_id = ''USER_002'', total_consumption_ml = Fin 14000,
      avg_daily_consumption_ml = Fin 2000, std_daily_consumption_ml = Fin 0,
      max_daily_consumption_ml = Fin 2000, min_daily_consumption_ml = Fin 2000,
      avg_drinking_events_per_day = Fin 12, peak_hydration_hour = 20, peak_hydration_day = 2,
      consistency_score = Fin 1, days_analyzed = 7\<rparr>"

definition short_forecast :: "forecast_point list option" where
  "short_forecast = Some (forecast_df 7 [Fin 1500])"

text \<open>The categories of the three recommendations of the intake rule.\<close>

definition is_intake :: "recommendation \<Rightarrow> bool" where
  "is_intake r =
     (category r = ''Increase Intake'' \<or> category r = ''Minor Adjustment'' \<or>
      category r = ''Great Job!'')"

text \<open>
  Two frames of one user with a full bottle throughout. The first has 48 half-hourly
  readings, from 00:00 to 23:30 of one day. The second has 47 readings, one a day at 00:00,
  over 47 days.
\<close>

definition one_day_frame :: "row list" where
  "one_day_frame = generate_simulated_data ''USER_001'' (map (\<lambda>i. (30 * i, 100)) [0 ..< 48])"

definition sparse_frame :: "row list" where
  "sparse_frame = generate_simulated_data ''USER_001'' (map (\<lambda>i. (1440 * i, 100)) [0 ..< 47])"

text \<open>
  A frame of one user whose bottle stays full for two days, with two readings a day: a
  user with data who drank 0 ml. \<open>no_infinity\<close> holds of a consumption sample that
  is a number or NaN, as every sample computed from fill levels is.
\<close>

definition two_dry_days :: "row list" where
  "two_dry_days =
     generate_simulated_data ''USER_001'' [(0, 100), (30, 100), (1440, 100), (1470, 100)]"

definition no_infinity :: "fl \<Rightarrow> bool" where
  "no_infinity x = (x \<noteq> PInf \<and> x \<noteq> NInf)"

text \<open>
  Stand-ins for a model of statsmodels: one that raises ValueError, one that is
  interrupted from the keyboard, and one that forecasts the same value for every step.
  \<open>returns_horizon\<close> is the contract of \<open>forecast(steps=k)\<close>: when it returns, it returns
  k values.
\<close>

definition failing_fit :: fit where
  "failing_fit s k = Inl ValueError"

definition interrupted_fit :: fit where
  "interrupted_fit s k = Inl KeyboardInterrupt"

definition steady_fit :: "real \<Rightarrow> fit" where
  "steady_fit v s k = Inr (replicate k (Fin v))"

definition returns_horizon :: "fit \<Rightarrow> bool" where
  "returns_horizon f = (\<forall>s k vs. f s k = Inr vs \<longrightarrow> length vs = k)"

text \<open>The dashboard as the constructor leaves it.\<close>

definition empty_dashboard :: dashboard where
  "empty_dashboard = \<lparr>users_data = Map.empty, devices_data = Map.empty, forecasts = Map.empty\<rparr>"

section \<open>Consumption samples\<close>

lemma diff_nth:
  assumes "0 < i" "i < length xs"
  shows "diff xs ! i = fl_sub (xs ! i) (xs ! (i - 1))"
proof -
  obtain v rest where xs: "xs = v # rest" using assms by (cases xs) auto
  obtain j where i: "i = Suc j" using assms by (cases i) auto
  have j: "j < length rest" using assms xs i by simp
  have "map2 fl_sub rest xs ! j = fl_sub (rest ! j) (xs ! j)"
    using j xs by simp
  then show ?thesis using xs i by (simp add: diff_def)
qed

lemma length_diff: "length (diff xs) = length xs"
  by (cases xs) (simp_all add: diff_def)

text \<open>
  What the consumption column holds for a reading and its predecessor: the minimum of 0 and
  the drop in volume, which is 0 for a drop and the negated rise for a refill. The unary
  minus of \<open>-data['volume_ml'].diff().clip(lower=0)\<close> applies after the clip.
\<close>

lemma consumption_column_nth:
  assumes "0 < i" "i < length volumes"
  shows "consumption_column volumes ! i = Fin (min 0 (volumes ! (i - 1) - volumes ! i))"
proof -
  have "diff (map Fin volumes) ! i = fl_sub (Fin (volumes ! i)) (Fin (volumes ! (i - 1)))"
    using assms by (simp add: diff_nth)
  then show ?thesis using assms
    by (simp add: consumption_column_def length_diff clip_lower_def fl_sub_def min_def)
qed

text \<open>
  C1. The claim: for every reading pair, consumption_ml equals
  max(0, previous_volume - current_volume), positive for a drop in level and 0 for a refill.
  The code computes the opposite sign. A bottle that goes from 100 percent to 90 percent
  (1000 ml to 900 ml) has consumption 0 where the claim has 100, and is no drinking event;
  a bottle refilled from 20 percent to 100 percent has consumption -800 where the claim
  has 0.
\<close>

theorem consumption_sign_inverted:
  "map consumption_ml (generate_simulated_data ''USER_001'' [(0, 100), (30, 90)])
     = [NaN, Fin 0]
   \<and> map is_drinking_event (generate_simulated_data ''USER_001'' [(0, 100), (30, 90)])
     = [False, False]
   \<and> map consumption_ml (generate_simulated_data ''USER_001'' [(0, 20), (30, 100)])
     = [NaN, Fin (- 800)]"
  by (simp add: generate_simulated_data_def consumption_column_def diff_def clip_lower_def
        fl_sub_def groupby_cumsum_def dt_date_def nansum_def notna_def fl_gt_def)

section \<open>The recommendation rules\<close>

lemma shortfall_threshold: "fl_mul RECOMMENDED_DAILY_ML (Fin 0.8) = Fin 1600"
  by (simp add: RECOMMENDED_DAILY_ML_def)

lemma generate_recommendations_Some:
  "generate_recommendations (Some a) forecast = Some rs \<Longrightarrow>
     \<not> df_empty forecast \<and>
     performance_ratio rs = fl_div (avg_daily_consumption_ml a) RECOMMENDED_DAILY_ML \<and>
     recommendations rs =
        [if fl_lt (fl_div (avg_daily_consumption_ml a) RECOMMENDED_DAILY_ML) (Fin 0.7)
         then increase_intake (avg_daily_consumption_ml a)
         else if fl_lt (fl_div (avg_daily_consumption_ml a) RECOMMENDED_DAILY_ML) (Fin 0.9)
         then minor_adjustment (avg_daily_consumption_ml a)
         else great_job]
        @ (if fl_lt (consistency_score a) (Fin 0.7) then [improve_consistency] else [])
        @ (if 18 < peak_hydration_hour a then [timing_optimization] else [])
        @ (if fl_lt (nanmean (map forecasted_consumption_ml (df_rows forecast))) (Fin 1600)
           then [projected_shortfall (nanmean (map forecasted_consumption_ml (df_rows forecast)))]
           else [])"
  unfolding generate_recommendations_def Let_def shortfall_threshold
  by (cases "df_empty forecast") auto

lemma generate_recommendations_win_Some:
  "generate_recommendations_win (Some a) forecast = Some rs \<Longrightarrow>
     performance_ratio rs = fl_div (avg_daily_consumption_ml a) RECOMMENDED_DAILY_ML \<and>
     recommendations rs =
        [if fl_lt (fl_div (avg_daily_consumption_ml a) RECOMMENDED_DAILY_ML) (Fin 0.7)
         then increase_intake_win (avg_daily_consumption_ml a)
         else if fl_lt (fl_div (avg_daily_consumption_ml a) RECOMMENDED_DAILY_ML) (Fin 0.9)
         then minor_adjustment_win (avg_daily_consumption_ml a)
         else great_job_win]
        @ (if fl_lt (consistency_score a) (Fin 0.7) then [improve_consistency_win] else [])"
  unfolding generate_recommendations_win_def Let_def
  by auto

lemma generate_recommendations_win_returns:
  "\<exists>rs. generate_recommendations_win (Some a) forecast = Some rs"
  by (simp add: generate_recommendations_win_def Let_def)

lemma rec_fields:
  "priority (increase_intake x) = HIGH" "category (increase_intake x) = ''Increase Intake''"
  "priority (minor_adjustment x) = MEDIUM" "category (minor_adjustment x) = ''Minor Adjustment''"
  "priority great_job = INFO" "category great_job = ''Great Job!''"
  "priority improve_consistency = MEDIUM" "category improve_consistency = ''Improve Consistency''"
  "priority timing_optimization = LOW" "category timing_optimization = ''Timing Optimization''"
  "priority (projected_shortfall y) = MEDIUM"
  "category (projected_shortfall y) = ''Projected Shortfall''"
  by (simp_all add: increase_intake_def minor_adjustment_def great_job_def
        improve_consistency_def timing_optimization_def projected_shortfall_def)

lemma rec_fields_win:
  "priority (increase_intake_win x) = HIGH"
  "category (increase_intake_win x) = ''Increase Intake''"
  "priority (minor_adjustment_win x) = MEDIUM"
  "category (minor_adjustment_win x) = ''Minor Adjustment''"
  "priority great_job_win = INFO" "category great_job_win = ''Great Job!''"
  "priority improve_consistency_win = MEDIUM"
  "category improve_consistency_win = ''Improve Consistency''"
  by (simp_all add: increase_intake_win_def minor_adjustment_win_def great_job_win_def
        improve_consistency_win_def)

lemma fl_ratio_cases:
  assumes "x \<noteq> NaN"
  shows "fl_ge (fl_div x RECOMMENDED_DAILY_ML) (Fin c)
           = (\<not> fl_lt (fl_div x RECOMMENDED_DAILY_ML) (Fin c))"
  using assms by (cases x) (simp_all add: RECOMMENDED_DAILY_ML_def fl_ge_def)

lemma fl_lt_07_09: "fl_lt x (Fin 0.7) \<Longrightarrow> fl_lt x (Fin 0.9)"
  by (cases x) simp_all

lemma example_values:
  "avg_daily_consumption_ml low_evening_analysis = Fin 1000"
  "consistency_score low_evening_analysis = Fin 0.5"
  "peak_hydration_hour low_evening_analysis = 20"
  "avg_daily_consumption_ml steady_evening_analysis = Fin 2000"
  "consistency_score steady_evening_analysis = Fin 1"
  "peak_hydration_hour steady_evening_analysis = 20"
  "\<not> df_empty short_forecast"
  "nanmean (map forecasted_consumption_ml (df_rows short_forecast)) = Fin 1500"
  by (simp_all add: low_evening_analysis_def steady_evening_analysis_def short_forecast_def
        forecast_df_def df_empty_def df_rows_def nanmean_def nansum_def count_valid_def notna_def)

lemma example_returns:
  "\<exists>rs. generate_recommendations (Some low_evening_analysis) short_forecast = Some rs"
  using example_values(7) by (simp add: generate_recommendations_def Let_def)

text \<open>
  The intake rule in a returned set. Whenever either file returns a recommendation set for
  an analysis whose daily average is a number, performance_ratio is the average divided by
  2000, and the first recommendation is the one of the intake rule: HIGH "Increase Intake"
  exactly when the ratio is below 0.7, MEDIUM "Minor Adjustment" exactly when it is at
  least 0.7 and below 0.9, INFO "Great Job!" exactly when it is at least 0.9. No later
  recommendation of the set belongs to the intake rule. The Windows file returns a set for
  every analysis; the Firebase file returns one exactly when the forecast is not empty.
\<close>

lemma intake_rule_of_returned_set:
  assumes avg: "avg_daily_consumption_ml a \<noteq> NaN"
      and ret: "generate_recommendations (Some a) forecast = Some rs
                \<or> generate_recommendations_win (Some a) forecast = Some rs"
  shows "performance_ratio rs = fl_div (avg_daily_consumption_ml a) (Fin 2000) \<and>
         (\<exists>r rest. recommendations rs = r # rest
            \<and> ((priority r = HIGH \<and> category r = ''Increase Intake'')
                 = fl_lt (performance_ratio rs) (Fin 0.7))
            \<and> ((priority r = MEDIUM \<and> category r = ''Minor Adjustment'')
                 = (fl_ge (performance_ratio rs) (Fin 0.7) \<and> fl_lt (performance_ratio rs) (Fin 0.9)))
            \<and> ((priority r = INFO \<and> category r = ''Great Job!'')
                 = fl_ge (performance_ratio rs) (Fin 0.9))
            \<and> is_intake r \<and> (\<forall>x \<in> set rest. \<not> is_intake x))"
  using ret
proof
  assume "generate_recommendations (Some a) forecast = Some rs"
  from generate_recommendations_Some[OF this] avg show ?thesis
    by (auto simp: rec_fields is_intake_def fl_ratio_cases RECOMMENDED_DAILY_ML_def[symmetric]
             dest: fl_lt_07_09)
next
  assume "generate_recommendations_win (Some a) forecast = Some rs"
  from generate_recommendations_win_Some[OF this] avg show ?thesis
    by (auto simp: rec_fields_win is_intake_def fl_ratio_cases RECOMMENDED_DAILY_ML_def[symmetric]
             dest: fl_lt_07_09)
qed

lemma generate_recommendations_returns_iff:
  "(\<exists>rs. generate_recommendations (Some a) forecast = Some rs) = (\<not> df_empty forecast)"
  by (simp add: generate_recommendations_def Let_def)

text \<open>
  C8. The claim: exactly one recommendation of the intake rule fires for every
  performance_ratio, and it is always present. The Firebase file breaks the last part. Its
  first statement, \<open>if not analysis or forecast.empty: return {}\<close>, returns the empty
  dict for every empty forecast, before the intake rule is reached: a user who averages
  1000 ml a day (ratio 0.5) and has no forecast gets nothing, where the claim has HIGH
  "Increase Intake". The function tests \<open>if not forecast.empty:\<close> again before its
  forecast rule, a test that is dead code behind that first statement, and the Windows
  file, whose first statement is \<open>if not analysis:\<close>, returns the intake
  recommendation on the same input.
\<close>

theorem intake_rule_dropped_on_empty_forecast:
  "generate_recommendations (Some low_evening_analysis) None = None
   \<and> generate_recommendations (Some low_evening_analysis) (Some []) = None
   \<and> (\<exists>rs. generate_recommendations_win (Some low_evening_analysis) (Some []) = Some rs
         \<and> performance_ratio rs = Fin 0.5
         \<and> map category (recommendations rs) = [''Increase Intake'', ''Improve Consistency'']
         \<and> map priority (recommendations rs) = [HIGH, MEDIUM])"
  by (simp add: generate_recommendations_def generate_recommendations_win_def df_empty_def
        Let_def example_values RECOMMENDED_DAILY_ML_def rec_fields_win)

text \<open>
  C9. The recommendations are appended in the order of evaluation and never sorted: the
  intake rule, then the consistency rule when consistency_score is below 0.7, then the
  timing rule when the peak hour is after 18, then the shortfall rule when the forecast is
  not empty and its mean is below 2000 * 0.8. The Windows file has the first two rules
  only. In the witness a LOW recommendation stands before a MEDIUM one.
\<close>

theorem recommendation_order:
  "(generate_recommendations (Some a) forecast = Some rs \<longrightarrow>
      recommendations rs =
        [if fl_lt (performance_ratio rs) (Fin 0.7)
         then increase_intake (avg_daily_consumption_ml a)
         else if fl_lt (performance_ratio rs) (Fin 0.9)
         then minor_adjustment (avg_daily_consumption_ml a)
         else great_job]
        @ (if fl_lt (consistency_score a) (Fin 0.7) then [improve_consistency] else [])
        @ (if 18 < peak_hydration_hour a then [timing_optimization] else [])
        @ (if \<not> df_empty forecast
              \<and> fl_lt (nanmean (map forecasted_consumption_ml (df_rows forecast))) (Fin (2000 * 0.8))
           then [projected_shortfall (nanmean (map forecasted_consumption_ml (df_rows forecast)))]
           else []))
   \<and> (generate_recommendations_win (Some a) forecast = Some rs' \<longrightarrow>
      recommendations rs' =
        [if fl_lt (performance_ratio rs') (Fin 0.7)
         then increase_intake_win (avg_daily_consumption_ml a)
         else if fl_lt (performance_ratio rs') (Fin 0.9)
         then minor_adjustment_win (avg_daily_consumption_ml a)
         else great_job_win]
        @ (if fl_lt (consistency_score a) (Fin 0.7) then [improve_consistency_win] else []))"
proof (intro conjI impI)
  assume "generate_recommendations (Some a) forecast = Some rs"
  from generate_recommendations_Some[OF this] show "recommendations rs =
        [if fl_lt (performance_ratio rs) (Fin 0.7)
         then increase_intake (avg_daily_consumption_ml a)
         else if fl_lt (performance_ratio rs) (Fin 0.9)
         then minor_adjustment (avg_daily_consumption_ml a)
         else great_job]
        @ (if fl_lt (consistency_score a) (Fin 0.7) then [improve_consistency] else [])
        @ (if 18 < peak_hydration_hour a then [timing_optimization] else [])
        @ (if \<not> df_empty forecast
              \<and> fl_lt (nanmean (map forecasted_consumption_ml (df_rows forecast))) (Fin (2000 * 0.8))
           then [projected_shortfall (nanmean (map forecasted_consumption_ml (df_rows forecast)))]
           else [])"
    by simp
next
  assume "generate_recommendations_win (Some a) forecast = Some rs'"
  from generate_recommendations_win_Some[OF this] show "recommendations rs' =
        [if fl_lt (performance_ratio rs') (Fin 0.7)
         then increase_intake_win (avg_daily_consumption_ml a)
         else if fl_lt (performance_ratio rs') (Fin 0.9)
         then minor_adjustment_win (avg_daily_consumption_ml a)
         else great_job_win]
        @ (if fl_lt (consistency_score a) (Fin 0.7) then [improve_consistency_win] else [])"
    by simp
qed

theorem recommendation_order_witness:
  "\<exists>rs. generate_recommendations (Some low_evening_analysis) short_forecast = Some rs
     \<and> recommendations rs =
         [increase_intake (Fin 1000), improve_consistency, timing_optimization,
          projected_shortfall (Fin 1500)]
     \<and> map priority (recommendations rs) = [HIGH, MEDIUM, LOW, MEDIUM]"
proof -
  obtain rs where rs: "generate_recommendations (Some low_evening_analysis) short_forecast = Some rs"
    using example_returns by blast
  have ratio: "performance_ratio rs = Fin 0.5"
    using generate_recommendations_Some[OF rs]
    by (simp add: example_values RECOMMENDED_DAILY_ML_def)
  have "recommendations rs =
         [increase_intake (Fin 1000), improve_consistency, timing_optimization,
          projected_shortfall (Fin 1500)]"
    using recommendation_order[of low_evening_analysis short_forecast rs] rs ratio
    by (simp add: example_values)
  then show ?thesis using rs by (simp add: rec_fields)
qed

text \<open>
  C2. The claim: with an empty forecast, generate_recommendations still returns the intake
  rule, and the consistency and timing rules when their conditions hold. It fails in both
  files for a user who averages 2000 ml and drinks most at 20:00: the Firebase file
  returns the empty dict, and the Windows file returns the intake recommendation alone,
  with no timing recommendation.
\<close>

theorem empty_forecast_counterexample:
  "generate_recommendations (Some steady_evening_analysis) None = None
   \<and> generate_recommendations_win (Some steady_evening_analysis) None =
       Some \<lparr>set_user_id = ''USER_002'', current_daily_avg_ml = Fin 2000,
             recommended_daily_ml = Fin 2000, performance_ratio = Fin 1,
             meeting_goal = True, recommendations = [great_job_win]\<rparr>"
  by (simp add: generate_recommendations_def generate_recommendations_win_def df_empty_def
        steady_evening_analysis_def RECOMMENDED_DAILY_ML_def fl_ge_def Let_def)

text \<open>
  C2, amended. With an empty forecast the Windows file returns a recommendation set that
  holds the recommendation of the intake rule, followed by the one of the consistency
  rule when consistency_score is below 0.7, and nothing else.
\<close>

theorem recommendations_win_on_empty_forecast:
  assumes "df_empty forecast"
  shows "\<exists>rs. generate_recommendations_win (Some a) forecast = Some rs
           \<and> recommendations rs =
               [if fl_lt (fl_div (avg_daily_consumption_ml a) (Fin 2000)) (Fin 0.7)
                then increase_intake_win (avg_daily_consumption_ml a)
                else if fl_lt (fl_div (avg_daily_consumption_ml a) (Fin 2000)) (Fin 0.9)
                then minor_adjustment_win (avg_daily_consumption_ml a)
                else great_job_win]
               @ (if fl_lt (consistency_score a) (Fin 0.7) then [improve_consistency_win] else [])"
proof -
  obtain rs where rs: "generate_recommendations_win (Some a) forecast = Some rs"
    using generate_recommendations_win_returns by blast
  from generate_recommendations_win_Some[OF rs] rs show ?thesis
    by (simp add: RECOMMENDED_DAILY_ML_def)
qed

theorem recommendations_win_on_empty_forecast_witness:
  "df_empty (Some [])
   \<and> (\<exists>rs. generate_recommendations_win (Some low_evening_analysis) (Some []) = Some rs
         \<and> recommendations rs = [increase_intake_win (Fin 1000), improve_consistency_win])"
proof -
  have e: "df_empty (Some [])" by (simp add: df_empty_def)
  from recommendations_win_on_empty_forecast[OF e, of low_evening_analysis] e
  show ?thesis by (simp add: example_values)
qed

section \<open>The forecaster\<close>

lemma groupby_sum_Nil_iff: "(groupby_sum keys vals = []) = (keys = [])"
  by (cases keys) (auto simp: groupby_sum_def simp flip: set_empty)

lemma daily_totals_Nil_iff: "(daily_totals data = []) = (data = [])"
  by (simp add: daily_totals_def groupby_sum_Nil_iff)

lemma index_last_cases:
  "s \<noteq> [] \<Longrightarrow> index_last s = Inr (fst (last s))"
  "index_last [] = Inl IndexError"
  by (cases s) (simp_all add: index_last_def)

lemma length_ensemble: "length (ensemble xs ys) = max (length xs) (length ys)"
  by (induction xs ys rule: ensemble.induct) simp_all

lemma ensemble_map2:
  "length xs = length ys \<Longrightarrow>
     ensemble xs ys = map2 (\<lambda>x y. fl_div (fl_add x y) (Fin 2)) xs ys"
  by (induction xs ys rule: ensemble.induct) simp_all

lemma forecast_df_values: "map forecasted_consumption_ml (forecast_df start vs) = vs"
  by (rule nth_equalityI) (simp_all add: forecast_df_def)

lemma length_forecast_df: "length (forecast_df start vs) = length vs"
  by (simp add: forecast_df_def)

lemma forecast_df_bands:
  "p \<in> set (forecast_df start vs) \<Longrightarrow>
     lower_bound p = fl_mul (forecasted_consumption_ml p) (Fin 0.8) \<and>
     upper_bound p = fl_mul (forecasted_consumption_ml p) (Fin 1.2)"
  by (auto simp: forecast_df_def)

text \<open>What the forecaster returns on a frame of at least 48 rows, and on a shorter one.\<close>

lemma forecast_consumption_unfold:
  assumes "48 \<le> length data"
  shows "forecast_consumption hw arima data n =
           Inr (Some (forecast_df (fst (last (daily_totals data)) + 1)
             (case hw (daily_totals data) n of
                Inr h \<Rightarrow> (case arima (daily_totals data) n of
                            Inr a \<Rightarrow> ensemble h a | Inl e \<Rightarrow> h)
              | Inl e \<Rightarrow> (case arima (daily_totals data) n of
                            Inr a \<Rightarrow> a
                          | Inl e' \<Rightarrow> replicate n (nanmean (map snd (daily_totals data)))))))"
proof -
  have ne: "daily_totals data \<noteq> []" using assms by (auto simp: daily_totals_Nil_iff)
  show ?thesis using assms
    by (simp add: forecast_consumption_def Let_def make_forecast_def flat_forecast_def
          except_bare_def except_Exception_def index_last_cases(1)[OF ne]
          split: sum.splits)
qed

lemma forecast_consumption_win_unfold:
  assumes "48 \<le> length data"
  shows "forecast_consumption_win has arima data n =
           Inr (Some (forecast_df (fst (last (daily_totals data)) + 1)
             (if has then
                (case arima (daily_totals data) n of
                   Inr a \<Rightarrow> a
                 | Inl e \<Rightarrow> replicate n (nanmean (map snd (daily_totals data))))
              else replicate n (nanmean (map snd (daily_totals data))))))"
proof -
  have ne: "daily_totals data \<noteq> []" using assms by (auto simp: daily_totals_Nil_iff)
  show ?thesis using assms
    by (simp add: forecast_consumption_win_def Let_def make_forecast_def flat_forecast_def
          except_Exception_def index_last_cases(1)[OF ne]
          split: sum.splits)
qed

lemma forecast_consumption_short:
  "length data < 48 \<Longrightarrow> forecast_consumption hw arima data n = Inr None"
  "length data < 48 \<Longrightarrow> forecast_consumption_win has arima data n = Inr None"
  by (simp_all add: forecast_consumption_def forecast_consumption_win_def)

lemma forecast_consumption_Some:
  assumes "forecast_consumption hw arima data n = Inr (Some pts)
           \<or> forecast_consumption_win has arima data n = Inr (Some pts)"
  shows "48 \<le> length data"
proof (rule ccontr)
  assume "\<not> 48 \<le> length data"
  then have "length data < 48" by simp
  from forecast_consumption_short[OF this] assms show False by simp
qed

lemma forecast_consumption_total:
  "\<exists>r. forecast_consumption hw arima data n = Inr r"
  "\<exists>r. forecast_consumption_win has arima data n = Inr r"
proof -
  show "\<exists>r. forecast_consumption hw arima data n = Inr r"
  proof (cases "length data < 48")
    case True
    then show ?thesis by (simp add: forecast_consumption_short)
  next
    case False
    then have "48 \<le> length data" by simp
    then show ?thesis by (simp add: forecast_consumption_unfold)
  qed
  show "\<exists>r. forecast_consumption_win has arima data n = Inr r"
  proof (cases "length data < 48")
    case True
    then show ?thesis by (simp add: forecast_consumption_short)
  next
    case False
    then have "48 \<le> length data" by simp
    then show ?thesis by (simp add: forecast_consumption_win_unfold)
  qed
qed

lemma length_consumption_column: "length (consumption_column vs) = length vs"
  by (simp add: consumption_column_def length_diff)

lemma length_groupby_cumsum:
  "length (groupby_cumsum ks vs) = min (length ks) (length vs)"
  by (simp add: groupby_cumsum_def)

lemma length_generate_simulated_data:
  "length (generate_simulated_data uid readings) = length readings"
  by (simp add: generate_simulated_data_def Let_def length_consumption_column
        length_groupby_cumsum)

lemma date_generate_simulated_data:
  "map date (generate_simulated_data uid readings) = map (\<lambda>r. dt_date (fst r)) readings"
  by (rule nth_equalityI)
     (simp_all add: generate_simulated_data_def Let_def length_consumption_column
        length_groupby_cumsum)

lemma one_day_length: "length one_day_frame = 48"
  by (simp add: one_day_frame_def length_generate_simulated_data)

lemma one_day_dates: "map date one_day_frame = replicate 48 0"
  unfolding one_day_frame_def date_generate_simulated_data
  by (rule nth_equalityI) (simp_all add: dt_date_def)

lemma sparse_dates: "map date sparse_frame = [0 ..< 47]"
  unfolding sparse_frame_def date_generate_simulated_data
  by (rule nth_equalityI) (simp_all add: dt_date_def)

lemma sparse_length: "length sparse_frame = 47"
  by (simp add: sparse_frame_def length_generate_simulated_data)

lemma fit_examples:
  "returns_horizon failing_fit" "returns_horizon (steady_fit v)"
  by (simp_all add: returns_horizon_def failing_fit_def steady_fit_def)

text \<open>
  C6. Whenever a forecast is produced (the frame has at least 48 rows), the point
  estimates follow the tiers. In the Firebase file: when Holt-Winters and ARIMA both
  return, the estimates are their sum divided by 2, position by position; when one of them
  raises, the other is used alone; when both raise, every estimate is the mean of the
  daily series. The Windows file makes no Holt-Winters fit: ARIMA is used alone when
  statsmodels is there and ARIMA returns, and every estimate is the mean of the daily
  series otherwise.
\<close>

theorem tiered_ensemble_policy:
  assumes "48 \<le> length data"
  shows "(\<exists>pts. forecast_consumption hw arima data n = Inr (Some pts)
           \<and> (hw (daily_totals data) n = Inr h \<and> arima (daily_totals data) n = Inr a
                \<longrightarrow> map forecasted_consumption_ml pts = ensemble h a
                  \<and> (length h = length a \<longrightarrow> map forecasted_consumption_ml pts
                        = map2 (\<lambda>x y. fl_div (fl_add x y) (Fin 2)) h a))
           \<and> (hw (daily_totals data) n = Inr h \<and> arima (daily_totals data) n = Inl e
                \<longrightarrow> map forecasted_consumption_ml pts = h)
           \<and> (hw (daily_totals data) n = Inl e \<and> arima (daily_totals data) n = Inr a
                \<longrightarrow> map forecasted_consumption_ml pts = a)
           \<and> (hw (daily_totals data) n = Inl e \<and> arima (daily_totals data) n = Inl e'
                \<longrightarrow> map forecasted_consumption_ml pts
                      = replicate n (nanmean (map snd (daily_totals data)))))
       \<and> (\<exists>pts. forecast_consumption_win has arima data n = Inr (Some pts)
           \<and> (has \<and> arima (daily_totals data) n = Inr a
                \<longrightarrow> map forecasted_consumption_ml pts = a)
           \<and> (has \<and> arima (daily_totals data) n = Inl e
                \<longrightarrow> map forecasted_consumption_ml pts
                      = replicate n (nanmean (map snd (daily_totals data))))
           \<and> (\<not> has \<longrightarrow> map forecasted_consumption_ml pts
                      = replicate n (nanmean (map snd (daily_totals data)))))"
proof (intro conjI)
  show "\<exists>pts. forecast_consumption hw arima data n = Inr (Some pts)
           \<and> (hw (daily_totals data) n = Inr h \<and> arima (daily_totals data) n = Inr a
                \<longrightarrow> map forecasted_consumption_ml pts = ensemble h a
                  \<and> (length h = length a \<longrightarrow> map forecasted_consumption_ml pts
                        = map2 (\<lambda>x y. fl_div (fl_add x y) (Fin 2)) h a))
           \<and> (hw (daily_totals data) n = Inr h \<and> arima (daily_totals data) n = Inl e
                \<longrightarrow> map forecasted_consumption_ml pts = h)
           \<and> (hw (daily_totals data) n = Inl e \<and> arima (daily_totals data) n = Inr a
                \<longrightarrow> map forecasted_consumption_ml pts = a)
           \<and> (hw (daily_totals data) n = Inl e \<and> arima (daily_totals data) n = Inl e'
                \<longrightarrow> map forecasted_consumption_ml pts
                      = replicate n (nanmean (map snd (daily_totals data))))"
    by (simp add: forecast_consumption_unfold[OF assms] forecast_df_values ensemble_map2)
  show "\<exists>pts. forecast_consumption_win has arima data n = Inr (Some pts)
           \<and> (has \<and> arima (daily_totals data) n = Inr a
                \<longrightarrow> map forecasted_consumption_ml pts = a)
           \<and> (has \<and> arima (daily_totals data) n = Inl e
                \<longrightarrow> map forecasted_consumption_ml pts
                      = replicate n (nanmean (map snd (daily_totals data))))
           \<and> (\<not> has \<longrightarrow> map forecasted_consumption_ml pts
                      = replicate n (nanmean (map snd (daily_totals data))))"
    by (simp add: forecast_consumption_win_unfold[OF assms] forecast_df_values)
qed

theorem tiered_ensemble_policy_witness:
  "48 \<le> length one_day_frame
   \<and> (\<exists>pts. forecast_consumption (steady_fit 1400) (steady_fit 1600) one_day_frame 7
               = Inr (Some pts)
         \<and> map forecasted_consumption_ml pts = replicate 7 (Fin 1500))
   \<and> (\<exists>pts. forecast_consumption_win True (steady_fit 1600) one_day_frame 7 = Inr (Some pts)
         \<and> map forecasted_consumption_ml pts = replicate 7 (Fin 1600))"
proof -
  have len: "48 \<le> length one_day_frame" by (simp add: one_day_length)
  have ens: "map2 (\<lambda>x y. fl_div (fl_add x y) (Fin 2)) (replicate 7 (Fin 1400))
               (replicate 7 (Fin 1600)) = replicate 7 (Fin 1500)"
    by (simp add: numeral_eq_Suc)
  from tiered_ensemble_policy[OF len, of "steady_fit 1400" "steady_fit 1600" 7
      "replicate 7 (Fin 1400)" "replicate 7 (Fin 1600)" _ _ True]
  have "(\<exists>pts. forecast_consumption (steady_fit 1400) (steady_fit 1600) one_day_frame 7
               = Inr (Some pts)
            \<and> map forecasted_consumption_ml pts = replicate 7 (Fin 1500))
        \<and> (\<exists>pts. forecast_consumption_win True (steady_fit 1600) one_day_frame 7
               = Inr (Some pts)
            \<and> map forecasted_consumption_ml pts = replicate 7 (Fin 1600))"
    using ens by (auto simp: steady_fit_def)
  then show ?thesis using len by blast
qed

text \<open>
  C7. Every forecast that is returned has as many points as the requested horizon, given
  that a statsmodels forecast of k steps has k values, and each point has
  lower_bound = forecasted_consumption_ml * 0.8 and
  upper_bound = forecasted_consumption_ml * 1.2.
\<close>

theorem forecast_length_and_band:
  assumes hw: "returns_horizon hw" and arima: "returns_horizon arima"
      and ret: "forecast_consumption hw arima data n = Inr (Some pts)
                \<or> forecast_consumption_win has arima data n = Inr (Some pts)"
  shows "length pts = n
         \<and> (\<forall>p \<in> set pts.
               lower_bound p = fl_mul (forecasted_consumption_ml p) (Fin 0.8)
               \<and> upper_bound p = fl_mul (forecasted_consumption_ml p) (Fin 1.2))"
proof -
  have len: "48 \<le> length data" using forecast_consumption_Some[OF ret] .
  have h: "\<And>vs. hw (daily_totals data) n = Inr vs \<Longrightarrow> length vs = n"
    using hw by (simp add: returns_horizon_def)
  have a: "\<And>vs. arima (daily_totals data) n = Inr vs \<Longrightarrow> length vs = n"
    using arima by (simp add: returns_horizon_def)
  from ret obtain start vs where pts: "pts = forecast_df start vs" and vs: "length vs = n"
  proof
    assume "forecast_consumption hw arima data n = Inr (Some pts)"
    then show ?thesis
      using that h a
      by (auto simp: forecast_consumption_unfold[OF len] length_ensemble split: sum.splits)
  next
    assume "forecast_consumption_win has arima data n = Inr (Some pts)"
    then show ?thesis
      using that a
      by (auto simp: forecast_consumption_win_unfold[OF len] split: sum.splits if_splits)
  qed
  show ?thesis using pts vs forecast_df_bands by (simp add: length_forecast_df)
qed

theorem forecast_length_and_band_witness:
  "returns_horizon failing_fit \<and> returns_horizon (steady_fit 1500)
   \<and> (\<exists>pts. forecast_consumption failing_fit (steady_fit 1500) one_day_frame 7 = Inr (Some pts)
        \<and> length pts = 7
        \<and> map lower_bound pts = replicate 7 (Fin 1200)
        \<and> map upper_bound pts = replicate 7 (Fin 1800))"
proof -
  have len: "48 \<le> length one_day_frame" by (simp add: one_day_length)
  obtain pts where pts:
      "forecast_consumption failing_fit (steady_fit 1500) one_day_frame 7 = Inr (Some pts)"
      and vals: "map forecasted_consumption_ml pts = replicate 7 (Fin 1500)"
    by (simp add: forecast_consumption_unfold[OF len] failing_fit_def steady_fit_def
          forecast_df_values)
  from forecast_length_and_band[OF fit_examples(1) fit_examples(2) disjI1[OF pts]]
  have l: "length pts = 7"
    and b: "\<forall>p \<in> set pts. lower_bound p = fl_mul (forecasted_consumption_ml p) (Fin 0.8)
               \<and> upper_bound p = fl_mul (forecasted_consumption_ml p) (Fin 1.2)"
    by blast+
  have v: "\<forall>p \<in> set pts. forecasted_consumption_ml p = Fin 1500"
    using vals l by (metis in_set_replicate image_eqI list.set_map)
  have lo: "map lower_bound pts = replicate 7 (Fin 1200)"
    using l b v by (intro nth_equalityI) simp_all
  have up: "map upper_bound pts = replicate 7 (Fin 1800)"
    using l b v by (intro nth_equalityI) simp_all
  show ?thesis using fit_examples pts l lo up by blast
qed

text \<open>
  C10. forecast_consumption never lets an exception reach its caller: for every frame,
  horizon and behaviour of the two model fits, also when a fit raises, the method returns
  a value, the empty frame or a forecast, and leaves the dashboard as it was.
\<close>

theorem forecast_consumption_never_raises:
  "(\<exists>r. forecast_consumption_method self hw arima data n = (Inr r, self))
   \<and> (\<exists>r. forecast_consumption_win_method self has arima data n = (Inr r, self))"
  using forecast_consumption_total(1)[of hw arima data n]
    forecast_consumption_total(2)[of has arima data n]
  by (simp add: forecast_consumption_method_def forecast_consumption_win_method_def)

theorem forecast_consumption_never_raises_witness:
  "(\<exists>pts. forecast_consumption_method empty_dashboard interrupted_fit interrupted_fit
             one_day_frame 7 = (Inr (Some pts), empty_dashboard) \<and> length pts = 7)
   \<and> forecast_consumption_method empty_dashboard interrupted_fit interrupted_fit sparse_frame 7
       = (Inr None, empty_dashboard)"
proof -
  have len: "48 \<le> length one_day_frame" by (simp add: one_day_length)
  from forecast_consumption_never_raises[of empty_dashboard interrupted_fit interrupted_fit
      one_day_frame 7]
  obtain r where r: "forecast_consumption_method empty_dashboard interrupted_fit interrupted_fit
                       one_day_frame 7 = (Inr r, empty_dashboard)"
    by blast
  then have "\<exists>pts. r = Some pts \<and> length pts = 7"
    by (auto simp: forecast_consumption_method_def forecast_consumption_unfold[OF len]
          interrupted_fit_def length_forecast_df)
  moreover have "forecast_consumption_method empty_dashboard interrupted_fit interrupted_fit
                   sparse_frame 7 = (Inr None, empty_dashboard)"
    by (simp add: forecast_consumption_method_def forecast_consumption_short sparse_length)
  ultimately show ?thesis using r by auto
qed

text \<open>
  C3. The claim: the forecaster refuses exactly when the history has fewer than 2 full
  days. The guard \<open>len(data) < 48\<close>, under the comment "Need at least 2 days of data",
  counts rows. On 48 half-hourly readings of a single day both files forecast 7 days; on
  47 readings spread over 47 days both refuse.
\<close>

theorem row_count_guard_is_not_two_days:
  "length one_day_frame = 48 \<and> map date one_day_frame = replicate 48 0
   \<and> (\<exists>pts. forecast_consumption failing_fit failing_fit one_day_frame 7 = Inr (Some pts)
         \<and> length pts = 7)
   \<and> (\<exists>pts. forecast_consumption_win False failing_fit one_day_frame 7 = Inr (Some pts)
         \<and> length pts = 7)
   \<and> length sparse_frame = 47 \<and> map date sparse_frame = [0 ..< 47]
   \<and> forecast_consumption (steady_fit 1500) (steady_fit 1500) sparse_frame 7 = Inr None
   \<and> forecast_consumption_win True (steady_fit 1500) sparse_frame 7 = Inr None"
proof -
  have len: "48 \<le> length one_day_frame" by (simp add: one_day_length)
  show ?thesis
    by (simp add: one_day_length one_day_dates sparse_length sparse_dates
          forecast_consumption_short forecast_consumption_unfold[OF len]
          forecast_consumption_win_unfold[OF len] failing_fit_def length_forecast_df)
qed

section \<open>The pattern analyzer\<close>

text \<open>The frame of the user whose bottle stayed full, and its analysis.\<close>

lemma two_dry_days_rows:
  "map date two_dry_days = [0, 0, 1, 1]"
  "map consumption_ml two_dry_days = [NaN, Fin 0, Fin 0, Fin 0]"
  "map is_drinking_event two_dry_days = [False, False, False, False]"
  "map timestamp two_dry_days = [0, 30, 1440, 1470]"
  "two_dry_days \<noteq> []"
  by (simp_all add: two_dry_days_def generate_simulated_data_def consumption_column_def diff_def
        clip_lower_def fl_sub_def groupby_cumsum_def dt_date_def nansum_def notna_def fl_gt_def)

lemma two_dry_days_totals: "daily_totals two_dry_days = [(0, Fin 0), (1, Fin 0)]"
  by (simp add: daily_totals_def two_dry_days_rows groupby_sum_def nansum_def notna_def)

lemma two_dry_days_groups:
  "groupby_sum (map (\<lambda>r. dt_hour (timestamp r)) two_dry_days)
     (map consumption_ml two_dry_days) = [(0, Fin 0)]"
  "groupby_sum (map (\<lambda>r. dt_dayofweek (timestamp r)) two_dry_days)
     (map consumption_ml two_dry_days) = [(0, Fin 0), (1, Fin 0)]"
  "groupby_sum (map date two_dry_days)
     (map (\<lambda>r. if is_drinking_event r then Fin 1 else Fin 0) two_dry_days)
     = [(0, Fin 0), (1, Fin 0)]"
  "nansum (map consumption_ml two_dry_days) = Fin 0"
proof -
  have h: "map (\<lambda>r. dt_hour (timestamp r)) two_dry_days = [0, 0, 0, 0]"
    using arg_cong[OF two_dry_days_rows(4), of "map dt_hour"] by (simp add: dt_hour_def comp_def)
  have d: "map (\<lambda>r. dt_dayofweek (timestamp r)) two_dry_days = [0, 0, 1, 1]"
    using arg_cong[OF two_dry_days_rows(4), of "map dt_dayofweek"]
    by (simp add: dt_dayofweek_def comp_def)
  have e: "map (\<lambda>r. if is_drinking_event r then Fin 1 else Fin 0) two_dry_days
             = [Fin 0, Fin 0, Fin 0, Fin 0]"
    using arg_cong[OF two_dry_days_rows(3), of "map (\<lambda>b. if b then Fin 1 else Fin 0)"]
    by (simp add: comp_def)
  show "groupby_sum (map (\<lambda>r. dt_hour (timestamp r)) two_dry_days)
     (map consumption_ml two_dry_days) = [(0, Fin 0)]"
    unfolding h two_dry_days_rows(2) by (simp add: groupby_sum_def nansum_def notna_def)
  show "groupby_sum (map (\<lambda>r. dt_dayofweek (timestamp r)) two_dry_days)
     (map consumption_ml two_dry_days) = [(0, Fin 0), (1, Fin 0)]"
    unfolding d two_dry_days_rows(2) by (simp add: groupby_sum_def nansum_def notna_def)
  show "groupby_sum (map date two_dry_days)
     (map (\<lambda>r. if is_drinking_event r then Fin 1 else Fin 0) two_dry_days)
     = [(0, Fin 0), (1, Fin 0)]"
    unfolding e two_dry_days_rows(1) by (simp add: groupby_sum_def nansum_def notna_def)
  show "nansum (map consumption_ml two_dry_days) = Fin 0"
    unfolding two_dry_days_rows(2) by (simp add: nansum_def notna_def)
qed

lemma zero_series_stats:
  "nanmean (map snd [(k, Fin 0), (k', Fin 0)]) = Fin 0"
  "nanstd (map snd [(k, Fin 0), (k', Fin 0)]) = Fin 0"
  "nanmax (map snd [(k, Fin 0), (k', Fin 0)]) = Fin 0"
  "nanmin (map snd [(k, Fin 0), (k', Fin 0)]) = Fin 0"
  "idxmax [(k, Fin 0)] = Inr k"
  "idxmax [(k, Fin 0), (k', Fin 0)] = Inr k"
  by (simp_all add: nanmean_def nanstd_def nanmax_def nanmin_def nansum_def count_valid_def
        notna_def fl_sub_def idxmax_def)

lemma two_dry_days_analysis:
  "analyze_user_patterns ''USER_001'' two_dry_days =
     Inr (Some \<lparr>analysis_user_id = ''USER_001'', total_consumption_ml = Fin 0,
                avg_daily_consumption_ml = Fin 0, std_daily_consumption_ml = Fin 0,
                max_daily_consumption_ml = Fin 0, min_daily_consumption_ml = Fin 0,
                avg_drinking_events_per_day = Fin 0, peak_hydration_hour = 0,
                peak_hydration_day = 0, consistency_score = NaN, days_analyzed = 2\<rparr>)"
  unfolding analyze_user_patterns_def Let_def two_dry_days_totals two_dry_days_groups
    zero_series_stats
  using two_dry_days_rows(5)
  by (simp add: fl_sub_def)


lemma two_dry_days_finite: "list_all (\<lambda>r. no_infinity (consumption_ml r)) two_dry_days"
proof -
  have "list_all no_infinity (map consumption_ml two_dry_days)"
    unfolding two_dry_days_rows(2) by (simp add: no_infinity_def)
  then show ?thesis by (simp add: list_all_iff)
qed

lemma foldl_fl_add_Fin:
  "\<forall>x \<in> set xs. \<exists>r. x = Fin r \<Longrightarrow> \<exists>r. foldl fl_add (Fin a) xs = Fin r"
proof (induction xs arbitrary: a)
  case Nil
  then show ?case by simp
next
  case (Cons x xs)
  then obtain r where "x = Fin r" by auto
  with Cons show ?case by simp
qed

lemma nansum_Fin:
  assumes "\<forall>x \<in> set xs. no_infinity x"
  shows "\<exists>r. nansum xs = Fin r"
  unfolding nansum_def
proof (rule foldl_fl_add_Fin, rule ballI)
  fix x assume "x \<in> set (filter notna xs)"
  then have "x \<noteq> NaN" "no_infinity x" using assms by (auto simp: notna_def)
  then show "\<exists>r. x = Fin r" by (cases x) (simp_all add: no_infinity_def)
qed

lemma groupby_sum_notna:
  assumes "\<forall>x \<in> set vals. no_infinity x"
  shows "\<forall>kv \<in> set (groupby_sum keys vals). notna (snd kv)"
proof
  fix kv assume "kv \<in> set (groupby_sum keys vals)"
  then obtain k where kv: "kv = (k, nansum (map snd (filter (\<lambda>kv. fst kv = k) (zip keys vals))))"
    by (auto simp: groupby_sum_def)
  have "\<forall>x \<in> set (map snd (filter (\<lambda>kv. fst kv = k) (zip keys vals))). no_infinity x"
    using assms by (auto dest: set_zip_rightD)
  from nansum_Fin[OF this] kv show "notna (snd kv)" by (auto simp: notna_def)
qed

lemma idxmax_returns:
  assumes "s \<noteq> []" and "\<forall>kv \<in> set s. notna (snd kv)"
  shows "\<exists>k. idxmax s = Inr k"
proof -
  have "filter (\<lambda>kv. notna (snd kv)) s = s" using assms(2) by (simp add: filter_id_conv)
  then show ?thesis using assms(1) by (cases s) (simp_all add: idxmax_def)
qed

lemma analyze_user_patterns_returns:
  assumes ne: "data \<noteq> []" and fin: "\<forall>r \<in> set data. no_infinity (consumption_ml r)"
  shows "\<exists>peak_hour peak_day.
           analyze_user_patterns uid data =
             Inr (Some
               \<lparr>analysis_user_id = uid,
                total_consumption_ml = nansum (map consumption_ml data),
                avg_daily_consumption_ml = nanmean (map snd (daily_totals data)),
                std_daily_consumption_ml = nanstd (map snd (daily_totals data)),
                max_daily_consumption_ml = nanmax (map snd (daily_totals data)),
                min_daily_consumption_ml = nanmin (map snd (daily_totals data)),
                avg_drinking_events_per_day =
                  nanmean (map snd (groupby_sum (map date data)
                    (map (\<lambda>r. if is_drinking_event r then Fin 1 else Fin 0) data))),
                peak_hydration_hour = peak_hour,
                peak_hydration_day = peak_day,
                consistency_score =
                  fl_sub (Fin 1)
                    (fl_div (nanstd (map snd (daily_totals data)))
                            (nanmean (map snd (daily_totals data)))),
                days_analyzed = length (daily_totals data)\<rparr>)"
proof -
  have vals: "\<forall>x \<in> set (map consumption_ml data). no_infinity x" using fin by simp
  have "groupby_sum (map (\<lambda>r. dt_hour (timestamp r)) data) (map consumption_ml data) \<noteq> []"
    using ne by (simp add: groupby_sum_Nil_iff)
  from idxmax_returns[OF this groupby_sum_notna[OF vals]]
  obtain ph where ph: "idxmax (groupby_sum (map (\<lambda>r. dt_hour (timestamp r)) data)
                          (map consumption_ml data)) = Inr ph" by blast
  have "groupby_sum (map (\<lambda>r. dt_dayofweek (timestamp r)) data) (map consumption_ml data) \<noteq> []"
    using ne by (simp add: groupby_sum_Nil_iff)
  from idxmax_returns[OF this groupby_sum_notna[OF vals]]
  obtain pd where pd: "idxmax (groupby_sum (map (\<lambda>r. dt_dayofweek (timestamp r)) data)
                          (map consumption_ml data)) = Inr pd" by blast
  show ?thesis
    unfolding analyze_user_patterns_def Let_def ph pd using ne by simp
qed


lemma nanstd_range: "nanstd xs = NaN \<or> nanstd xs = PInf \<or> (\<exists>r. 0 \<le> r \<and> nanstd xs = Fin r)"
proof -
  have "fl_sqrt y = NaN \<or> fl_sqrt y = PInf \<or> (\<exists>r. 0 \<le> r \<and> fl_sqrt y = Fin r)" for y
    by (cases y) simp_all
  then show ?thesis unfolding nanstd_def by simp
qed

lemma zero_mean_score:
  assumes "s = NaN \<or> s = PInf \<or> (\<exists>r. 0 \<le> r \<and> s = Fin r)"
  shows "fl_sub (Fin 1) (fl_div s (Fin 0)) = NaN \<or> fl_sub (Fin 1) (fl_div s (Fin 0)) = NInf"
proof -
  consider "s = NaN" | "s = PInf" | "s = Fin 0" | r where "0 < r" "s = Fin r"
    using assms by (auto simp: less_le)
  then show ?thesis by cases (simp_all add: fl_sub_def)
qed



text \<open>
  C5. The claim: consistency_score is 1 - std / mean of the daily totals, and a sentinel
  such as 0 when the mean is exactly 0. The code has the formula and no test of the mean.
  For the user whose bottle stayed full for two days the mean and the standard deviation
  are 0, and the score is \<open>1 - 0 / 0\<close>, the NaN of a division by zero.
\<close>

theorem zero_mean_counterexample:
  "\<exists>a. analyze_user_patterns ''USER_001'' two_dry_days = Inr (Some a)
     \<and> avg_daily_consumption_ml a = Fin 0
     \<and> std_daily_consumption_ml a = Fin 0
     \<and> consistency_score a = fl_sub (Fin 1) (fl_div (Fin 0) (Fin 0))
     \<and> consistency_score a = NaN
     \<and> consistency_score a \<noteq> Fin 0"
  by (simp add: two_dry_days_analysis fl_sub_def)

text \<open>
  C5, amended. For every frame with at least one row and no infinite consumption sample
  an analysis is returned, whose consistency_score is 1 - std / mean of the daily totals
  in floating-point arithmetic, std being the sample standard deviation. No sentinel is
  set: when the mean is exactly 0 the score is NaN (std is 0 or NaN) or minus infinity
  (std is positive).
\<close>

theorem consistency_score_unclamped:
  assumes "data \<noteq> []" and "\<forall>r \<in> set data. no_infinity (consumption_ml r)"
  shows "\<exists>a. analyze_user_patterns uid data = Inr (Some a)
           \<and> avg_daily_consumption_ml a = nanmean (map snd (daily_totals data))
           \<and> std_daily_consumption_ml a = nanstd (map snd (daily_totals data))
           \<and> consistency_score a =
               fl_sub (Fin 1) (fl_div (std_daily_consumption_ml a) (avg_daily_consumption_ml a))
           \<and> (avg_daily_consumption_ml a = Fin 0 \<longrightarrow>
                consistency_score a = NaN \<or> consistency_score a = NInf)"
proof -
  from analyze_user_patterns_returns[OF assms, of uid]
  obtain a where a: "analyze_user_patterns uid data = Inr (Some a)"
    and avg: "avg_daily_consumption_ml a = nanmean (map snd (daily_totals data))"
    and std: "std_daily_consumption_ml a = nanstd (map snd (daily_totals data))"
    and cs: "consistency_score a =
               fl_sub (Fin 1) (fl_div (nanstd (map snd (daily_totals data)))
                                      (nanmean (map snd (daily_totals data))))"
    by fastforce
  have "avg_daily_consumption_ml a = Fin 0 \<longrightarrow>
          consistency_score a = NaN \<or> consistency_score a = NInf"
  proof
    assume z: "avg_daily_consumption_ml a = Fin 0"
    from zero_mean_score[OF nanstd_range[of "map snd (daily_totals data)"]]
    show "consistency_score a = NaN \<or> consistency_score a = NInf"
      using cs avg z by simp
  qed
  with a avg std cs show ?thesis by simp
qed

theorem consistency_score_unclamped_witness:
  "two_dry_days \<noteq> []
   \<and> list_all (\<lambda>r. no_infinity (consumption_ml r)) two_dry_days
   \<and> (\<exists>a. analyze_user_patterns ''USER_001'' two_dry_days = Inr (Some a)
         \<and> avg_daily_consumption_ml a = Fin 0
         \<and> consistency_score a = fl_sub (Fin 1) (fl_div (std_daily_consumption_ml a) (Fin 0))
         \<and> (consistency_score a = NaN \<or> consistency_score a = NInf))"
proof -
  have fin: "\<forall>r \<in> set two_dry_days. no_infinity (consumption_ml r)"
    using two_dry_days_finite by (simp add: list_all_iff)
  from consistency_score_unclamped[OF two_dry_days_rows(5) fin, of "''USER_001''"]
  obtain a where a: "analyze_user_patterns ''USER_001'' two_dry_days = Inr (Some a)"
    and cs: "consistency_score a =
               fl_sub (Fin 1) (fl_div (std_daily_consumption_ml a) (avg_daily_consumption_ml a))"
    and z: "avg_daily_consumption_ml a = Fin 0 \<longrightarrow>
              consistency_score a = NaN \<or> consistency_score a = NInf"
    by blast
  have avg: "avg_daily_consumption_ml a = Fin 0"
    using a unfolding two_dry_days_analysis by auto
  show ?thesis
    using two_dry_days_rows(5) two_dry_days_finite a cs z avg by auto
qed

end
